theory Spec2Isabelle
  imports Complex_Main "HOL-Library.Sublist" "HOL-Library.Char_ord" "HOL-Library.List_Lexorder"
begin

section \<open>Python values and the operations \<open>tools.py\<close> applies to them\<close>

text \<open>
  \<open>get_command\<close> of \<open>bamboo/common_python/tools.py\<close> is dynamically typed: every
  keyword parameter may hold \<open>None\<close>, a boolean, an integer or a string. The model keeps
  that: a scalar parameter is a \<open>pyval\<close>. Floating-point numbers and containers are not
  values of the model; the two places where the source computes with floats
  (\<open>float(data_reader_percent)\<close> and \<open>math.ceil(float(p) / n)\<close>) are treated below.
  Strings are byte lists; \<open>print\<close> calls write to standard output only and are left out.
  Operators follow Python 3: an order comparison between a string and a number is a
  \<open>TypeError\<close>.
\<close>

datatype pyval = PNone | PBool bool | PInt int | PStr string

text \<open>
  The outcomes of a call that does not return: \<open>raise Exception(msg)\<close>, the
  \<open>pytest.skip(msg)\<close> of a missing executable, a \<open>TypeError\<close> raised by an operator on
  a value of the wrong kind, and \<open>Unmodelled\<close> for a float computation outside the range
  in which the model describes it.
\<close>

datatype error = Exception string | Skip string | TypeError | Unmodelled

definition bind_result :: "error + 'a \<Rightarrow> ('a \<Rightarrow> error + 'b) \<Rightarrow> error + 'b" where
  "bind_result m f = (case m of Inl e \<Rightarrow> Inl e | Inr x \<Rightarrow> f x)"

text \<open>\<open>substring in string\<close> on two strings.\<close>

fun py_in :: "string \<Rightarrow> string \<Rightarrow> bool" where
  "py_in sub [] = (sub = [])"
| "py_in sub (c # cs) = (prefix sub (c # cs) \<or> py_in sub cs)"

text \<open>Truth value of a value in a condition (\<open>if weekly:\<close>).\<close>

fun truthy :: "pyval \<Rightarrow> bool" where
  "truthy PNone = False"
| "truthy (PBool b) = b"
| "truthy (PInt i) = (i \<noteq> 0)"
| "truthy (PStr s) = (s \<noteq> [])"

text \<open>Decimal digits of a natural number, and \<open>str\<close> of a value.\<close>

fun dec_nat :: "nat \<Rightarrow> string" where
  "dec_nat n = (if n < 10 then [''0123456789'' ! n]
                else dec_nat (n div 10) @ [''0123456789'' ! (n mod 10)])"

declare dec_nat.simps [simp del]

definition dec :: "int \<Rightarrow> string" where
  "dec i = (if i < 0 then ''-'' @ dec_nat (nat (- i)) else dec_nat (nat i))"

fun py_str :: "pyval \<Rightarrow> string" where
  "py_str PNone = ''None''"
| "py_str (PBool b) = (if b then ''True'' else ''False'')"
| "py_str (PInt i) = dec i"
| "py_str (PStr s) = s"

text \<open>The number a value stands for in arithmetic: integers, and booleans as 0 and 1.\<close>

fun py_num :: "pyval \<Rightarrow> int option" where
  "py_num (PInt i) = Some i"
| "py_num (PBool b) = Some (if b then 1 else 0)"
| "py_num PNone = None"
| "py_num (PStr s) = None"

text \<open>\<open>'%d' % v\<close>: a number is printed in decimal, anything else is a \<open>TypeError\<close>.\<close>

definition fmt_d :: "pyval \<Rightarrow> error + string" where
  "fmt_d v = (case py_num v of Some i \<Rightarrow> Inr (dec i) | None \<Rightarrow> Inl TypeError)"

text \<open>\<open>v > k\<close> for an integer constant \<open>k\<close>: a \<open>TypeError\<close> unless \<open>v\<close> is a number.\<close>

definition py_gt :: "pyval \<Rightarrow> int \<Rightarrow> error + bool" where
  "py_gt v k = (case py_num v of Some i \<Rightarrow> Inr (k < i) | None \<Rightarrow> Inl TypeError)"

text \<open>\<open>v != 0\<close>: only the numbers 0 and \<open>False\<close> are equal to 0.\<close>

definition py_ne_zero :: "pyval \<Rightarrow> bool" where
  "py_ne_zero v = (py_num v \<noteq> Some 0)"

text \<open>
  \<open>int(math.ceil(float(p) / n))\<close>, called with \<open>n != 0\<close>. Both operands are converted
  to double precision and divided there. For \<open>|p| < 2^53\<close> and \<open>|n| < 2^53\<close> both
  conversions are exact and the correctly rounded quotient has the ceiling of the exact
  quotient; the model gives that ceiling there and \<open>Unmodelled\<close> outside. A string as
  \<open>n\<close> makes the division a \<open>TypeError\<close>.
\<close>

definition py_ceil_div :: "pyval \<Rightarrow> pyval \<Rightarrow> error + int" where
  "py_ceil_div p n =
     (case py_num p of
        None \<Rightarrow> Inl TypeError
      | Some a \<Rightarrow>
          if \<not> \<bar>a\<bar> < 2 ^ 53 then Inl Unmodelled
          else (case py_num n of
                  None \<Rightarrow> Inl TypeError
                | Some b \<Rightarrow> if \<not> \<bar>b\<bar> < 2 ^ 53 then Inl Unmodelled
                            else Inr (- ((- a) div b))))"

text \<open>\<open>sep.join(xs)\<close>.\<close>

fun join :: "string \<Rightarrow> string list \<Rightarrow> string" where
  "join sep [] = []"
| "join sep [x] = x"
| "join sep (x # y # ys) = x @ sep @ join sep (y # ys)"

section \<open>\<open>check_list\<close>\<close>

text \<open>
  The inner loop of \<open>check_list\<close> runs over the substrings for one candidate value, the
  outer loop over the candidates; a message is appended for a string that contains the
  substring, and values that are not strings are passed over.
\<close>

fun check_substrings :: "string list \<Rightarrow> pyval \<Rightarrow> string list" where
  "check_substrings [] v = []"
| "check_substrings (sub # subs) v =
     (case v of
        PStr s \<Rightarrow> (if py_in sub s then [s @ '' contains '' @ sub] else [])
      | _ \<Rightarrow> [])
     @ check_substrings subs v"

fun check_list :: "string list \<Rightarrow> pyval list \<Rightarrow> string list" where
  "check_list substrings [] = []"
| "check_list substrings (v # vs) = check_substrings substrings v @ check_list substrings vs"

section \<open>\<open>get_error_line\<close>\<close>

text \<open>
  The log file is the list of its lines, in order (each line with its line end, as the
  iteration over an open file yields them). The loop keeps \<open>previous_line\<close>; it stops at
  the first line with a failure marker (that line is the result) or with a trace header
  (the previous line is the result); \<open>error_line\<close> stays empty when the file ends first.
\<close>

definition failure_marker :: "string \<Rightarrow> bool" where
  "failure_marker line \<longleftrightarrow>
     py_in ''ERROR'' line \<or> py_in ''LBANN error'' line \<or> py_in ''Error:'' line \<or>
     py_in ''Expired or invalid job'' line \<or>
     py_in ''Segmentation fault (core dumped)'' line \<or>
     py_in ''Relinquishing job allocation'' line"

definition trace_header :: "string \<Rightarrow> bool" where
  "trace_header line \<longleftrightarrow>
     py_in ''Stack trace:'' line \<or> py_in ''Error is not recoverable: exiting now'' line"

fun scan_lines :: "string \<Rightarrow> string list \<Rightarrow> string" where
  "scan_lines previous_line [] = ''''"
| "scan_lines previous_line (line # rest) =
     (if failure_marker line then line
      else if trace_header line then previous_line
      else scan_lines line rest)"

definition get_error_line :: "string list \<Rightarrow> string" where
  "get_error_line error_file = scan_lines '''' error_file"

section \<open>The parameters and the environment of \<open>get_command\<close>\<close>

text \<open>
  \<open>extra_lbann_flags\<close> is \<open>None\<close>, a dictionary or something else. A dictionary is the
  list of its items in insertion order, its flag names being strings.
\<close>

datatype extra_flags = ExtraNone | ExtraDict "(string \<times> pyval) list" | ExtraOther

text \<open>The keyword parameters, in the order of the signature.\<close>

record request =
  cluster :: pyval
  executable :: pyval
  num_nodes :: pyval
  num_processes :: pyval
  partition_name :: pyval
  time_limit :: pyval
  ckpt_dir :: pyval
  dir_name :: pyval
  data_filedir_default :: pyval
  data_filedir_train_default :: pyval
  data_filename_train_default :: pyval
  data_filedir_test_default :: pyval
  data_filename_test_default :: pyval
  data_reader_name :: pyval
  data_reader_path :: pyval
  data_reader_percent :: pyval
  exit_after_setup :: pyval
  metadata :: pyval
  mini_batch_size :: pyval
  model_folder :: pyval
  model_name :: pyval
  model_path :: pyval
  num_epochs :: pyval
  optimizer_name :: pyval
  optimizer_path :: pyval
  processes_per_model :: pyval
  extra_lbann_flags :: extra_flags
  error_file_name :: pyval
  output_file_name :: pyval
  check_executable_existence :: pyval
  return_tuple :: pyval
  skip_no_exe :: pyval
  weekly :: pyval

text \<open>A call that gives the two positional parameters and leaves every default.\<close>

definition default_request :: "pyval \<Rightarrow> pyval \<Rightarrow> request" where
  "default_request c e =
     \<lparr> cluster = c, executable = e, num_nodes = PNone, num_processes = PNone,
       partition_name = PNone, time_limit = PNone, ckpt_dir = PNone, dir_name = PNone,
       data_filedir_default = PNone, data_filedir_train_default = PNone,
       data_filename_train_default = PNone, data_filedir_test_default = PNone,
       data_filename_test_default = PNone, data_reader_name = PNone,
       data_reader_path = PNone, data_reader_percent = PNone,
       exit_after_setup = PBool False, metadata = PNone, mini_batch_size = PNone,
       model_folder = PNone, model_name = PNone, model_path = PNone, num_epochs = PNone,
       optimizer_name = PNone, optimizer_path = PNone, processes_per_model = PNone,
       extra_lbann_flags = ExtraNone, error_file_name = PNone, output_file_name = PNone,
       check_executable_existence = PBool True, return_tuple = PBool False,
       skip_no_exe = PBool True, weekly = PBool False \<rparr>"

text \<open>
  What the function reads from outside: environment variables (\<open>os.getenv\<close>), the file
  system (\<open>os.path.exists\<close>, which also accepts an integer as a file descriptor), and
  the conversion \<open>float(v)\<close> followed by \<open>str\<close>, which the model takes as given:
  \<open>FloatStr s\<close> when the conversion succeeds and prints as \<open>s\<close>, \<open>FloatValueError\<close>
  when it raises \<open>ValueError\<close>, \<open>FloatRaises\<close> for any other exception.
\<close>

datatype float_outcome = FloatStr string | FloatValueError | FloatRaises

record env =
  getenv :: "string \<Rightarrow> string option"
  path_exists :: "pyval \<Rightarrow> bool"
  float_str :: "pyval \<Rightarrow> float_outcome"

datatype scheduler = Slurm | Lsf

datatype command = CommandString string | CommandTuple string string string string

section \<open>\<open>get_command\<close>: the blacklist gate (lines 50 to 82)\<close>

definition blacklist :: "string list" where
  "blacklist = ['';'', ''--'']"

definition scalar_fields :: "request \<Rightarrow> pyval list" where
  "scalar_fields r =
     [cluster r, executable r,
      num_nodes r, num_processes r, partition_name r, time_limit r,
      ckpt_dir r, dir_name r, data_filedir_default r, data_filedir_train_default r,
      data_filename_train_default r, data_filedir_test_default r,
      data_filename_test_default r, data_reader_name r, data_reader_path r,
      data_reader_percent r, exit_after_setup r, metadata r, mini_batch_size r,
      model_folder r, model_name r, model_path r, num_epochs r, optimizer_name r,
      optimizer_path r, processes_per_model r,
      error_file_name r, output_file_name r,
      check_executable_existence r, return_tuple r, skip_no_exe r, weekly r]"

text \<open>The keys, then the values, are appended when \<open>extra_lbann_flags\<close> is a dictionary.\<close>

definition strings :: "request \<Rightarrow> pyval list" where
  "strings r =
     scalar_fields r @
     (case extra_lbann_flags r of
        ExtraDict items \<Rightarrow> map (\<lambda>kv. PStr (fst kv)) items @ map snd items
      | _ \<Rightarrow> [])"

text \<open>\<open>lbann_errors\<close> as it stands after line 78.\<close>

definition extra_type_errors :: "request \<Rightarrow> string list" where
  "extra_type_errors r =
     (case extra_lbann_flags r of
        ExtraOther \<Rightarrow>
          [''extra_lbann_flags must be a dict e.g. `{flag : None, flag: 4}`. '' @
           ''Use `None` if a flag has no value attached to it.'']
      | _ \<Rightarrow> [])"

definition invalid_character_errors :: "request \<Rightarrow> string list" where
  "invalid_character_errors r = check_list blacklist (strings r)"

section \<open>Time limit, executable, scheduler (lines 84 to 104)\<close>

definition resolve_time_limit :: "pyval \<Rightarrow> pyval \<Rightarrow> error + pyval" where
  "resolve_time_limit tlim wk =
     (let t = (if tlim = PNone then (if truthy wk then PInt 360 else PInt 35) else tlim)
      in bind_result (py_gt t 360) (\<lambda>over. Inr (if over then PInt 360 else t)))"

text \<open>
  \<open>process_executable_existence\<close>: \<open>os.path.exists(None)\<close> is a \<open>TypeError\<close>; a missing
  executable is a skip of the test or an exception.
\<close>

definition process_executable_existence :: "env \<Rightarrow> pyval \<Rightarrow> pyval \<Rightarrow> error + unit" where
  "process_executable_existence en exe skip =
     (if exe = PNone then Inl TypeError
      else if \<not> path_exists en exe then
        (if truthy skip then Inl (Skip (''Executable does not exist: '' @ py_str exe))
         else Inl (Exception (''Executable does not exist: '' @ py_str exe)))
      else Inr ())"

definition determine_scheduler :: "pyval \<Rightarrow> error + scheduler" where
  "determine_scheduler c =
     (if c \<in> set [PStr ''catalyst'', PStr ''corona'', PStr ''pascal''] then Inr Slurm
      else if c \<in> set [PStr ''lassen'', PStr ''ray''] then Inr Lsf
      else Inl (Exception (''Unsupported Cluster: '' @ py_str c)))"

section \<open>Allocation and run commands (lines 108 to 252)\<close>

text \<open>
  \<open>slurm\<close>. Each function returns the segment, or the \<open>TypeError\<close> of a \<open>%d\<close> applied to
  a value that is not a number.
\<close>

definition slurm_allocate :: "env \<Rightarrow> pyval \<Rightarrow> pyval \<Rightarrow> pyval \<Rightarrow> pyval \<Rightarrow> error + string" where
  "slurm_allocate en c nodes part t =
     (if getenv en ''SLURM_JOB_NUM_NODES'' = None then
        bind_result
          (if nodes \<noteq> PNone then bind_result (fmt_d nodes) (\<lambda>n. Inr ('' --nodes='' @ n))
           else Inr '''')
          (\<lambda>option_num_nodes.
             let option_partition =
                   (if part \<noteq> PNone then
                      '' --partition='' @
                        py_str (if c \<in> set [PStr ''pascal''] \<and> part = PStr ''pdebug''
                                then PStr ''pbatch'' else part)
                    else '''')
             in bind_result
                  (if t \<noteq> PNone then bind_result (fmt_d t) (\<lambda>s. Inr ('' --time='' @ s))
                   else Inr '''')
                  (\<lambda>option_time_limit.
                     Inr (''salloc'' @ option_num_nodes @ option_partition @ option_time_limit)))
      else Inr '''')"

definition slurm_run :: "string \<Rightarrow> pyval \<Rightarrow> pyval \<Rightarrow> error + string" where
  "slurm_run command_allocate procs t =
     (let space = (if command_allocate = '''' then '''' else '' '');
          command_run = space @ ''srun --mpibind=off --time='' @ py_str t
      in bind_result
           (if procs \<noteq> PNone then bind_result (fmt_d procs) (\<lambda>n. Inr ('' --ntasks='' @ n))
            else Inr '''')
           (\<lambda>option_num_processes. Inr (command_run @ option_num_processes)))"

text \<open>
  \<open>lsf\<close>. The allocation branch may lower \<open>time_limit\<close> on \<open>ray\<close>, and the run command
  reads the variable afterwards, so the function returns the segment together with the
  time limit it leaves behind.
\<close>

definition lsf_node_options :: "pyval \<Rightarrow> pyval \<Rightarrow> pyval \<Rightarrow> error + (string \<times> string \<times> string)" where
  \<open>lsf_node_options c nodes procs =
     (if c = PStr ''lassen'' then Inr ('' -nnodes '' @ py_str nodes, '''', '''')
      else if procs \<noteq> PNone then
        bind_result (fmt_d procs)
          (\<lambda>n. if nodes \<noteq> PNone \<and> py_ne_zero nodes then
                 bind_result (py_ceil_div procs nodes)
                   (\<lambda>k. Inr ('''', '' -n '' @ n, '' -R "span[ptile='' @ dec k @ '']"''))
               else Inr ('''', '' -n '' @ n, ''''))
      else Inr ('''', '''', ''''))\<close>

definition lsf_time_option :: "pyval \<Rightarrow> pyval \<Rightarrow> error + (string \<times> pyval)" where
  "lsf_time_option c t =
     (if t \<noteq> PNone then
        bind_result
          (if c = PStr ''ray'' then
             bind_result (py_gt t 480) (\<lambda>over. Inr (if over then PInt 480 else t))
           else Inr t)
          (\<lambda>t'. bind_result (fmt_d t') (\<lambda>s. Inr ('' -W '' @ s, t')))
      else Inr ('''', t))"

definition lsf_allocate ::
  "env \<Rightarrow> pyval \<Rightarrow> pyval \<Rightarrow> pyval \<Rightarrow> pyval \<Rightarrow> pyval \<Rightarrow> error + (string \<times> pyval)" where
  "lsf_allocate en c nodes procs part t =
     (if getenv en ''LSB_HOSTS'' = None \<and> getenv en ''LSB_JOBID'' = None then
        let option_exclusive = (if c \<noteq> PStr ''lassen'' then '' -x'' else '''');
            option_group = '' -G guests'';
            option_interactive = '' -Is''
        in bind_result (lsf_node_options c nodes procs)
             (\<lambda>(option_num_nodes, option_num_processes, option_processes_per_node).
                let option_partition =
                      (if part \<noteq> PNone then '' -q '' @ py_str part else '''')
                in bind_result (lsf_time_option c t)
                     (\<lambda>(option_time_limit, t').
                        Inr (''bsub'' @ option_exclusive @ option_group @ option_interactive @
                             option_num_processes @ option_partition @ option_num_nodes @
                             option_processes_per_node @ option_time_limit, t')))
      else Inr ('''', t))"

definition lsf_run :: "pyval \<Rightarrow> string \<Rightarrow> pyval \<Rightarrow> pyval \<Rightarrow> pyval \<Rightarrow> error + string" where
  \<open>lsf_run c command_allocate nodes procs t =
     (let space = (if command_allocate = '''' then '''' else '' '');
          command_run = (if c = PStr ''lassen'' then space @ ''jsrun''
                         else space @ ''mpirun --timeout='' @ py_str t)
      in if procs \<noteq> PNone then
           (if c = PStr ''lassen'' then
              bind_result (py_gt procs 16)
                (\<lambda>over.
                   let procs' = (if over then PInt 16 else procs)
                   in Inr (command_run @ '' -b "packed:10"'' @ '' -c 40'' @ '' -g 4'' @
                           '' -d packed'' @ ('' -n '' @ py_str procs') @ '''' @
                           '' -r 1'' @ '' -a 4''))
            else
              bind_result (fmt_d procs)
                (\<lambda>n. bind_result
                        (if nodes \<noteq> PNone \<and> py_ne_zero nodes then
                           bind_result (py_ceil_div procs nodes) (\<lambda>k. Inr ('' -N '' @ dec k))
                         else Inr '''')
                        (\<lambda>option_processes_per_node.
                           Inr (command_run @ '''' @ '''' @ '''' @ '''' @ ('' -np '' @ n) @
                                option_processes_per_node @ '''' @ ''''))))
         else Inr command_run)\<close>

text \<open>
  The dispatch on the scheduler. The scheduler is one of the two that
  \<open>determine_scheduler\<close> returns, so the final \<open>else\<close> of the source (Unsupported
  Scheduler) has no case here.
\<close>

definition allocate_and_run ::
  "env \<Rightarrow> scheduler \<Rightarrow> request \<Rightarrow> pyval \<Rightarrow> error + (string \<times> string)" where
  "allocate_and_run en sched r t =
     (case sched of
        Slurm \<Rightarrow>
          bind_result (slurm_allocate en (cluster r) (num_nodes r) (partition_name r) t)
            (\<lambda>command_allocate.
               bind_result (slurm_run command_allocate (num_processes r) t)
                 (\<lambda>command_run. Inr (command_allocate, command_run)))
      | Lsf \<Rightarrow>
          bind_result
            (lsf_allocate en (cluster r) (num_nodes r) (num_processes r) (partition_name r) t)
            (\<lambda>(command_allocate, t').
               bind_result (lsf_run (cluster r) command_allocate (num_nodes r) (num_processes r) t')
                 (\<lambda>command_run. Inr (command_allocate, command_run))))"

section \<open>The application flags (lines 254 to 504)\<close>

text \<open>
  Lines 270 to 315: model, data reader and optimizer. The result is the list of errors
  these lines append, in order, and the three options.
\<close>

definition model_errors :: "request \<Rightarrow> string list" where
  "model_errors r =
     (if model_path r \<noteq> PNone then
        (if model_folder r \<noteq> PNone \<or> model_name r \<noteq> PNone then
           [''model_path is set but so is at least one of model folder and model_name'']
         else [])
      else if model_folder r \<noteq> PNone \<and> model_name r \<noteq> PNone then []
      else if model_folder r \<noteq> PNone then [''model_folder set but not model_name.'']
      else if model_name r \<noteq> PNone then [''model_name set but not model_folder.'']
      else [])"

definition path_errors :: "request \<Rightarrow> string list" where
  "path_errors r =
     (if dir_name r \<noteq> PNone then
        model_errors r @
        (if data_reader_name r \<noteq> PNone \<and> data_reader_path r \<noteq> PNone then
           [''data_reader_path is set but so is data_reader_name'']
         else []) @
        (if optimizer_name r \<noteq> PNone \<and> optimizer_path r \<noteq> PNone then
           [''optimizer_path is set but so is optimizer_name'']
         else []) @
        (if model_folder r = PNone \<and> model_name r = PNone \<and>
            data_reader_name r = PNone \<and> optimizer_name r = PNone then
           [''dir_name set but none of model_folder, model_name,'' @
            '' data_reader_name, optimizer_name are.'']
         else [])
      else if model_folder r \<noteq> PNone \<or> model_name r \<noteq> PNone \<or>
              data_reader_name r \<noteq> PNone \<or> optimizer_name r \<noteq> PNone then
        [''dir_name is not set but at least one of model_folder,'' @
         '' model_name, data_reader_name, optimizer_name is.'']
      else [])"

definition option_model :: "request \<Rightarrow> string" where
  "option_model r =
     (if dir_name r \<noteq> PNone \<and> model_path r = PNone \<and>
         model_folder r \<noteq> PNone \<and> model_name r \<noteq> PNone then
        '' --model='' @ py_str (dir_name r) @ ''/model_zoo/'' @ py_str (model_folder r) @
        ''/model_'' @ py_str (model_name r) @ ''.prototext''
      else if model_path r \<noteq> PNone then '' --model='' @ py_str (model_path r)
      else '''')"

definition option_data_reader :: "request \<Rightarrow> string" where
  "option_data_reader r =
     (if dir_name r \<noteq> PNone \<and> data_reader_name r \<noteq> PNone \<and> data_reader_path r = PNone then
        '' --reader='' @ py_str (dir_name r) @ ''/model_zoo/data_readers/data_reader_'' @
        py_str (data_reader_name r) @ ''.prototext''
      else if data_reader_path r \<noteq> PNone then '' --reader='' @ py_str (data_reader_path r)
      else '''')"

definition option_optimizer :: "request \<Rightarrow> string" where
  "option_optimizer r =
     (if dir_name r \<noteq> PNone \<and> optimizer_name r \<noteq> PNone \<and> optimizer_path r = PNone then
        '' --optimizer='' @ py_str (dir_name r) @ ''/model_zoo/optimizers/opt_'' @
        py_str (optimizer_name r) @ ''.prototext''
      else if optimizer_path r \<noteq> PNone then '' --optimizer='' @ py_str (optimizer_path r)
      else '''')"

text \<open>
  \<open>re.sub('[a-z]scratch[a-z]', repl, s)\<close>: from left to right, every occurrence of a
  lower-case letter, \<open>scratch\<close>, a lower-case letter is replaced, and the search goes on
  behind it. \<open>re.sub('labels', 'original/labels', s)\<close> likewise. A value that is not a
  string is a \<open>TypeError\<close>.
\<close>

definition is_lower :: "char \<Rightarrow> bool" where
  "is_lower c \<longleftrightarrow> CHR ''a'' \<le> c \<and> c \<le> CHR ''z''"

fun sub_scratch :: "string \<Rightarrow> string \<Rightarrow> string" where
  "sub_scratch repl [] = []"
| "sub_scratch repl (c # cs) =
     (if is_lower c \<and> prefix ''scratch'' cs \<and>
         (case drop 7 cs of [] \<Rightarrow> False | d # rest \<Rightarrow> is_lower d)
      then repl @ sub_scratch repl (drop 8 cs)
      else c # sub_scratch repl cs)"

fun sub_labels :: "string \<Rightarrow> string" where
  "sub_labels [] = []"
| "sub_labels (c # cs) =
     (if prefix ''labels'' (c # cs) then ''original/labels'' @ sub_labels (drop 5 cs)
      else c # sub_labels cs)"

definition re_sub :: "(string \<Rightarrow> string) \<Rightarrow> pyval \<Rightarrow> error + string" where
  "re_sub f v = (case v of PStr s \<Rightarrow> Inr (f s) | _ \<Rightarrow> Inl TypeError)"

text \<open>
  Lines 316 to 359: the five data file options, in the order \<open>option_data_filedir\<close>,
  \<open>option_data_filedir_train\<close>, \<open>option_data_filename_train\<close>,
  \<open>option_data_filedir_test\<close>, \<open>option_data_filename_test\<close>.
\<close>

definition data_file_parameters :: "request \<Rightarrow> pyval list" where
  "data_file_parameters r =
     [data_filedir_train_default r, data_filename_train_default r,
      data_filedir_test_default r, data_filename_test_default r]"

definition data_file_options ::
  "request \<Rightarrow> error + (string \<times> string \<times> string \<times> string \<times> string)" where
  "data_file_options r =
     (if data_filedir_default r \<noteq> PNone then
        (if cluster r \<in> set [PStr ''catalyst'', PStr ''corona'', PStr ''pascal''] then
           Inr ('''', '''', '''', '''', '''')
         else if cluster r = PStr ''lassen'' then
           bind_result (re_sub (sub_scratch ''gpfs1'') (data_filedir_default r))
             (\<lambda>d. Inr ('' --data_filedir='' @ d, '''', '''', '''', ''''))
         else if cluster r = PStr ''ray'' then
           bind_result (re_sub (sub_scratch ''gscratchr'') (data_filedir_default r))
             (\<lambda>d. Inr ('' --data_filedir='' @ d, '''', '''', '''', ''''))
         else Inr ('''', '''', '''', '''', ''''))
      else if PNone \<notin> set (data_file_parameters r) then
        (if cluster r \<in> set [PStr ''catalyst'', PStr ''corona'', PStr ''pascal''] then
           Inr ('''', '''', '''', '''', '''')
         else if cluster r = PStr ''lassen'' then
           bind_result (re_sub (sub_scratch ''gpfs1'') (data_filename_train_default r))
             (\<lambda>ftrain0.
           bind_result (re_sub (sub_scratch ''gpfs1'') (data_filename_test_default r))
             (\<lambda>ftest0.
           bind_result (re_sub (sub_scratch ''gpfs1'') (data_filedir_train_default r))
             (\<lambda>dtrain.
           bind_result (re_sub (sub_scratch ''gpfs1'') (data_filedir_test_default r))
             (\<lambda>dtest.
                Inr ('''',
                     '' --data_filedir_train='' @ dtrain,
                     '' --data_filename_train='' @ sub_labels ftrain0,
                     '' --data_filedir_test='' @ dtest,
                     '' --data_filename_test='' @ sub_labels ftest0)))))
         else if cluster r = PStr ''ray'' then
           bind_result (re_sub (sub_scratch ''gscratchr'') (data_filedir_train_default r))
             (\<lambda>dtrain.
           bind_result (re_sub (sub_scratch ''gscratchr'') (data_filename_train_default r))
             (\<lambda>ftrain.
           bind_result (re_sub (sub_scratch ''gscratchr'') (data_filedir_test_default r))
             (\<lambda>dtest.
           bind_result (re_sub (sub_scratch ''gscratchr'') (data_filename_test_default r))
             (\<lambda>ftest.
                Inr ('''',
                     '' --data_filedir_train='' @ dtrain,
                     '' --data_filename_train='' @ ftrain,
                     '' --data_filedir_test='' @ dtest,
                     '' --data_filename_test='' @ ftest)))))
         else Inr ('''', '''', '''', '''', ''''))
      else Inr ('''', '''', '''', '''', ''''))"

text \<open>Lines 360 to 396: the errors on data reader and data files.\<close>

definition data_errors :: "request \<Rightarrow> string list" where
  "data_errors r =
     (if data_reader_name r \<noteq> PNone \<or> data_reader_path r \<noteq> PNone then
        (if data_filedir_default r \<noteq> PNone then
           (if data_file_parameters r \<noteq> [PNone, PNone, PNone, PNone] then
              [''data_fildir_default set but so is at least one of'' @
               '' [data_filedir_train_default, data_filename_train'' @
               ''_default, data_filedir_test_default,'' @
               '' data_filename_test_default]'']
            else [])
         else
           (if data_file_parameters r = [PNone, PNone, PNone, PNone] then
              (if data_reader_name r \<noteq> PStr ''synthetic'' then
                 [''data_reader_name or data_reader_path is set but not'' @
                  '' data_filedir_default. If a data reader is provided,'' @
                  '' the default filedir must be set. This allows for'' @
                  '' determining what the filedir should be on each'' @
                  '' cluster. Alternatively, some or all of'' @
                  '' [data_filedir_train_default, data_filename_train'' @
                  ''_default, data_filedir_test_default, data_filename'' @
                  ''_test_default] can be set.'']
               else [])
            else []))
      else
        (if data_filedir_default r \<noteq> PNone then
           [''data_filedir_default set but neither data_reader_name'' @
            '' or data_reader_path are.'']
         else if filter (\<lambda>x. x \<noteq> PNone) (data_file_parameters r) \<noteq> [] then
           [''At least one of [data_filedir_train_default, data_filename'' @
            ''_train_default, data_filedir_test_default, data_filename'' @
            ''_test_default] is set, but neither data_reader_name or'' @
            '' data_reader_path are.'']
         else []))"

text \<open>
  Lines 397 to 413: \<open>data_reader_percent\<close>. The defaults 1.00 and 0.10 print as
  \<open>1.0\<close> and \<open>0.1\<close>; after a \<open>ValueError\<close> the value is printed as it was given.
\<close>

definition reader_percent :: "env \<Rightarrow> request \<Rightarrow> error + (string list \<times> string)" where
  "reader_percent en r =
     (if data_reader_percent r \<noteq> PNone then
        (case float_str en (data_reader_percent r) of
           FloatStr s \<Rightarrow> Inr ([], '' --data_reader_percent='' @ s)
         | FloatValueError \<Rightarrow>
             Inr ([''data_reader_percent='' @ py_str (data_reader_percent r) @
                   '' is not a float.''],
                  '' --data_reader_percent='' @ py_str (data_reader_percent r))
         | FloatRaises \<Rightarrow> Inl Unmodelled)
      else if truthy (weekly r) then Inr ([], '' --data_reader_percent=1.0'')
      else Inr ([], '' --data_reader_percent=0.1''))"

text \<open>Lines 414 to 425.\<close>

definition option_exit_after_setup :: "request \<Rightarrow> string" where
  "option_exit_after_setup r =
     (if truthy (exit_after_setup r) then '' --exit_after_setup'' else '''')"

definition option_metadata :: "request \<Rightarrow> string" where
  "option_metadata r =
     (if metadata r \<noteq> PNone then
        '' --metadata='' @ py_str (dir_name r) @ ''/'' @ py_str (metadata r)
      else '''')"

definition option_d :: "string \<Rightarrow> pyval \<Rightarrow> error + string" where
  "option_d flag v =
     (if v \<noteq> PNone then bind_result (fmt_d v) (\<lambda>s. Inr (flag @ s)) else Inr '''')"

definition option_ckpt_dir :: "request \<Rightarrow> string" where
  "option_ckpt_dir r =
     (if ckpt_dir r \<noteq> PNone then '' --ckpt_dir='' @ py_str (ckpt_dir r) else '''')"

text \<open>
  Lines 426 to 493: the extra flags, in the order of \<open>sorted(extra_lbann_flags.items())\<close>
  (the keys of a dictionary are distinct, so that is the order of the keys). The loop
  carries \<open>extra_options\<close> and the errors it appends.
\<close>

definition allowed_flags :: "string list" where
  "allowed_flags =
     [''block_size'', ''procs_per_trainer'', ''num_gpus'', ''num_parallel_readers'',
      ''num_io_threads'', ''serialize_io'', ''disable_background_io_activity'',
      ''disable_cuda'', ''random_seed'', ''objective_function'', ''data_layout'',
      ''print_affinity'', ''use_data_store'', ''preload_data_store'', ''super_node'',
      ''write_sample_list'', ''ltfb_verbose'', ''ckpt_dir'',
      ''index_list_train'', ''index_list_test'', ''label_filename_train'',
      ''label_filename_test'', ''share_testing_data_readers'',
      ''image_dir'', ''no_im_comm'']"

text \<open>\<open>str\<close> of the list \<open>allowed_flags\<close>, as \<open>format\<close> prints it.\<close>

definition allowed_flags_repr :: string where
  "allowed_flags_repr =
     ''['' @ join '', '' (map (\<lambda>f. [CHR 0x27] @ f @ [CHR 0x27]) allowed_flags) @ '']''"

fun extra_loop :: "(string \<times> pyval) list \<Rightarrow> string list \<times> string \<Rightarrow> string list \<times> string" where
  "extra_loop [] acc = acc"
| "extra_loop ((flag, v) # items) (errors, extra_options) =
     (if flag \<in> set allowed_flags then
        (if v \<noteq> PNone then
           extra_loop items (errors, extra_options @ '' --'' @ flag @ ''='' @ py_str v)
         else extra_loop items (errors, extra_options @ '' --'' @ flag))
      else
        extra_loop items
          (errors @ [''extra_lbann_flags includes invalid flag='' @ flag @
                     ''. Flags must be in '' @ allowed_flags_repr @ ''.''],
           extra_options))"

definition extra_options :: "request \<Rightarrow> string list \<times> string" where
  "extra_options r =
     (case extra_lbann_flags r of
        ExtraDict items \<Rightarrow> extra_loop (sort_key fst items) ([], '''')
      | _ \<Rightarrow> ([], ''''))"

text \<open>
  The whole block: \<open>lbann_errors\<close> as it stands at line 494, and \<open>command_lbann\<close> of
  line 497. The formatting steps that can raise come in the order of the source.
\<close>

definition application_flags :: "env \<Rightarrow> request \<Rightarrow> error + (string list \<times> string)" where
  "application_flags en r =
     bind_result (data_file_options r)
       (\<lambda>(option_data_filedir, option_data_filedir_train, option_data_filename_train,
          option_data_filedir_test, option_data_filename_test).
     bind_result (reader_percent en r)
       (\<lambda>(percent_errors, option_data_reader_percent).
     bind_result (option_d '' --mini_batch_size='' (mini_batch_size r))
       (\<lambda>option_mini_batch_size.
     bind_result (option_d '' --num_epochs='' (num_epochs r))
       (\<lambda>option_num_epochs.
     bind_result (option_d '' --procs_per_model='' (processes_per_model r))
       (\<lambda>option_processes_per_model.
        Inr (extra_type_errors r @ path_errors r @ data_errors r @ percent_errors @
               fst (extra_options r),
             py_str (executable r) @ option_ckpt_dir r @ option_data_filedir @
               option_data_filedir_train @ option_data_filename_train @
               option_data_filedir_test @ option_data_filename_test @
               option_data_reader r @ option_data_reader_percent @
               option_exit_after_setup r @ option_metadata r @ option_mini_batch_size @
               option_model r @ option_num_epochs @ option_optimizer r @
               option_processes_per_model @ snd (extra_options r)))))))"

section \<open>\<open>get_command\<close>\<close>

definition command_redirect :: "request \<Rightarrow> string" where
  "command_redirect r =
     (if output_file_name r \<noteq> PNone then '' > '' @ py_str (output_file_name r) else '''') @
     (if error_file_name r \<noteq> PNone then '' 2> '' @ py_str (error_file_name r) else '''')"

text \<open>
  Lines 84 to 252, between the gate and the application flags: the time limit, the
  check of the executable, the scheduler and its two segments.
\<close>

definition scheduler_commands :: "env \<Rightarrow> request \<Rightarrow> error + (string \<times> string)" where
  "scheduler_commands en r =
     bind_result (resolve_time_limit (time_limit r) (weekly r))
       (\<lambda>t.
     bind_result
       (if truthy (check_executable_existence r)
        then process_executable_existence en (executable r) (skip_no_exe r)
        else Inr ())
       (\<lambda>_.
     bind_result (determine_scheduler (cluster r))
       (\<lambda>sched. allocate_and_run en sched r t)))"

definition get_command :: "env \<Rightarrow> request \<Rightarrow> error + command" where
  "get_command en r =
     (if invalid_character_errors r \<noteq> [] then
        Inl (Exception (''Invalid character(s): '' @ join '' , '' (invalid_character_errors r)))
      else
        bind_result (scheduler_commands en r)
          (\<lambda>(command_allocate, command_run).
        bind_result (application_flags en r)
          (\<lambda>(lbann_errors, command_lbann).
             if lbann_errors \<noteq> [] then
               Inl (Exception (''Invalid Usage: '' @ join '' , '' lbann_errors))
             else if truthy (return_tuple r) then
               Inr (CommandTuple command_allocate command_run command_lbann
                      (command_redirect r))
             else
               Inr (CommandString (command_allocate @ command_run @ '' '' @ command_lbann @
                                   command_redirect r)))))"

text \<open>
  An environment for examples: no allocation variable is set, every path exists, and
  no text converts to a float.
\<close>

definition example_env :: env where
  "example_env =
     \<lparr> getenv = (\<lambda>_. None), path_exists = (\<lambda>_. True), float_str = (\<lambda>_. FloatValueError) \<rparr>"

section \<open>The allocation segment as the specification orders it\<close>

text \<open>
  Section 4.4 of the specification lists the flags of \<open>bsub\<close> in the order: exclusive
  host, fairshare group, interactive shell, then the node count on \<open>lassen\<close> (otherwise
  the task count and, with a nonzero node count, the processes per host, the ceiling of
  processes by nodes), then the queue, then the time limit. This function follows those
  words, for a comparison with \<open>lsf_allocate\<close>, which follows the source.
\<close>

definition claimed_lsf_allocation :: "pyval \<Rightarrow> pyval \<Rightarrow> pyval \<Rightarrow> pyval \<Rightarrow> int \<Rightarrow> string" where
  \<open>claimed_lsf_allocation c nodes procs part tn =
     ''bsub'' @ (if c \<noteq> PStr ''lassen'' then '' -x'' else '''') @ '' -G guests'' @ '' -Is'' @
     (if c = PStr ''lassen'' then '' -nnodes '' @ py_str nodes
      else (case py_num procs of
              None \<Rightarrow> ''''
            | Some p \<Rightarrow>
                '' -n '' @ dec p @
                (case py_num nodes of
                   None \<Rightarrow> ''''
                 | Some n \<Rightarrow>
                     if n \<noteq> 0
                     then '' -R "span[ptile='' @ dec \<lceil>real_of_int p / real_of_int n\<rceil> @ '']"''
                     else ''''))) @
     (if part \<noteq> PNone then '' -q '' @ py_str part else '''') @
     '' -W '' @ dec tn\<close>

section \<open>Properties of \<open>get_error_line\<close>\<close>

lemma scan_lines_clean:
  "\<forall>l \<in> set ls. \<not> failure_marker l \<and> \<not> trace_header l \<Longrightarrow> scan_lines prev ls = ''''"
  by (induction ls arbitrary: prev) auto

lemma scan_lines_first:
  assumes "\<forall>l \<in> set pre. \<not> failure_marker l \<and> \<not> trace_header l"
  shows "scan_lines prev (pre @ line # post) =
           (if failure_marker line then line
            else if trace_header line then (if pre = [] then prev else last pre)
            else scan_lines line post)"
  using assms by (induction pre arbitrary: prev) auto

text \<open>
  C7. Let \<open>pre\<close> be lines without a failure marker and without a trace header. If the
  next line has a failure marker, \<open>get_error_line\<close> returns that line unchanged, whatever
  follows. If the next line has no failure marker but is a trace header, the result is
  the line just before it, the last line of \<open>pre\<close> (the empty string when the header is
  the first line of the log). A log made of \<open>pre\<close> alone gives the empty string.
\<close>

theorem get_error_line_first_marker:
  "(\<forall>l \<in> set pre. \<not> failure_marker l \<and> \<not> trace_header l) \<longrightarrow>
     (failure_marker line \<longrightarrow> get_error_line (pre @ line # post) = line) \<and>
     (\<not> failure_marker line \<and> trace_header line \<longrightarrow>
        get_error_line (pre @ line # post) = (if pre = [] then '''' else last pre)) \<and>
     get_error_line pre = ''''"
  by (simp add: get_error_line_def scan_lines_first scan_lines_clean)

theorem get_error_line_first_marker_witness:
  "get_error_line [''some detail'' @ [CHR 0x0A], ''Stack trace:'' @ [CHR 0x0A]]
     = ''some detail'' @ [CHR 0x0A]
   \<and> get_error_line [''a'', ''x ERROR y'', ''Stack trace:''] = ''x ERROR y''
   \<and> get_error_line [''a'', ''b''] = ''''"
  using
    get_error_line_first_marker
      [of "[''some detail'' @ [CHR 0x0A]]" "''Stack trace:'' @ [CHR 0x0A]" "[]"]
    get_error_line_first_marker [of "[''a'']" "''x ERROR y''" "[''Stack trace:'']"]
    get_error_line_first_marker [of "[''a'', ''b'']" "''''" "[]"]
  by (simp add: failure_marker_def trace_header_def)

section \<open>Basic facts\<close>

lemma bind_result_simps [simp]:
  "bind_result (Inl e) f = Inl e"
  "bind_result (Inr x) f = f x"
  by (simp_all add: bind_result_def)

lemma bind_result_eq_Inr:
  "bind_result m f = Inr y \<longleftrightarrow> (\<exists>x. m = Inr x \<and> f x = Inr y)"
  by (cases m) simp_all

lemma py_in_iff: "py_in sub s \<longleftrightarrow> (\<exists>p q. s = p @ sub @ q)"
proof (induction s)
  case Nil
  then show ?case by auto
next
  case (Cons c cs)
  show ?case
  proof
    assume "py_in sub (c # cs)"
    then consider "prefix sub (c # cs)" | "py_in sub cs" by auto
    then show "\<exists>p q. c # cs = p @ sub @ q"
    proof cases
      case 1
      then obtain q where "c # cs = sub @ q" by (auto simp: prefix_def)
      then have "c # cs = [] @ sub @ q" by simp
      then show ?thesis by blast
    next
      case 2
      with Cons obtain p q where "cs = p @ sub @ q" by blast
      then have "c # cs = (c # p) @ sub @ q" by simp
      then show ?thesis by blast
    qed
  next
    assume "\<exists>p q. c # cs = p @ sub @ q"
    then obtain p q where pq: "c # cs = p @ sub @ q" by blast
    show "py_in sub (c # cs)"
    proof (cases p)
      case Nil
      with pq have "prefix sub (c # cs)" by (simp add: prefix_def)
      then show ?thesis by simp
    next
      case (Cons a p')
      with pq have "cs = p' @ sub @ q" by simp
      with Cons.IH have "py_in sub cs" by blast
      then show ?thesis by simp
    qed
  qed
qed

lemma join_contains: "m \<in> set xs \<Longrightarrow> \<exists>p q. join sep xs = p @ m @ q"
proof (induction sep xs rule: join.induct)
  case (1 sep)
  then show ?case by simp
next
  case (2 sep x)
  then have "join sep [x] = [] @ m @ []" by simp
  then show ?case by blast
next
  case (3 sep x y ys)
  consider "m = x" | "m \<in> set (y # ys)" using 3 by auto
  then show ?case
  proof cases
    case 1
    then have "join sep (x # y # ys) = [] @ m @ (sep @ join sep (y # ys))" by simp
    then show ?thesis by blast
  next
    case 2
    with 3 obtain p q where "join sep (y # ys) = p @ m @ q" by auto
    then have "join sep (x # y # ys) = (x @ sep @ p) @ m @ q" by simp
    then show ?thesis by blast
  qed
qed

section \<open>The blacklist gate\<close>

lemma check_substrings_eq:
  "check_substrings subs v =
     (case v of PStr s \<Rightarrow> [s @ '' contains '' @ sub. sub \<leftarrow> subs, py_in sub s] | _ \<Rightarrow> [])"
  by (induction subs) (auto split: pyval.splits)

lemma check_list_eq:
  "check_list subs vs = [s @ '' contains '' @ sub. PStr s \<leftarrow> vs, sub \<leftarrow> subs, py_in sub s]"
  by (induction vs) (auto simp: check_substrings_eq split: pyval.splits)

lemma check_substrings_nonempty:
  "sub \<in> set subs \<Longrightarrow> py_in sub s \<Longrightarrow> check_substrings subs (PStr s) \<noteq> []"
  by (induction subs) auto

lemma check_list_nonempty:
  "PStr s \<in> set vs \<Longrightarrow> sub \<in> set subs \<Longrightarrow> py_in sub s \<Longrightarrow> check_list subs vs \<noteq> []"
  by (induction vs) (auto simp: check_substrings_nonempty)

text \<open>
  C1. Let a string \<open>s\<close> that contains \<open>;\<close> or \<open>--\<close> be the value of a scalar parameter,
  or a key or a value of the dictionary \<open>extra_lbann_flags\<close>. Then, in every environment
  and whatever the other parameters are, \<open>get_command\<close> raises the exception whose
  message is \<open>Invalid character(s): \<close> followed by the messages \<open>v contains sub\<close>,
  joined by \<open> , \<close>: one for every string \<open>v\<close> among the candidates and every
  blacklisted substring \<open>sub\<close> that \<open>v\<close> contains. No later step (time limit,
  executable, cluster, application flags) has any influence on the outcome.
\<close>

theorem blacklist_gate:
  assumes "PStr s \<in> set (scalar_fields r) \<or>
           (\<exists>items. extra_lbann_flags r = ExtraDict items \<and>
                    (s \<in> fst ` set items \<or> PStr s \<in> snd ` set items))"
    and "py_in '';'' s \<or> py_in ''--'' s"
  shows "get_command en r =
           Inl (Exception (''Invalid character(s): '' @
                  join '' , '' [v @ '' contains '' @ sub.
                                 PStr v \<leftarrow> strings r, sub \<leftarrow> blacklist, py_in sub v]))"
proof -
  from assms(1) have "PStr s \<in> set (strings r)"
    by (auto simp: strings_def)
  moreover from assms(2) obtain sub where "sub \<in> set blacklist" "py_in sub s"
    by (auto simp: blacklist_def)
  ultimately have "invalid_character_errors r \<noteq> []"
    unfolding invalid_character_errors_def by (rule check_list_nonempty)
  then show ?thesis
    by (simp add: get_command_def invalid_character_errors_def check_list_eq)
qed

theorem blacklist_gate_witness:
  "get_command example_env (default_request (PStr ''lassen'') (PStr ''lbann; rm --all''))
     = Inl (Exception (''Invalid character(s): lbann; rm --all contains ; , '' @
                       ''lbann; rm --all contains --''))
   \<and> get_command example_env
        ((default_request (PStr ''nowhere'') PNone)
           \<lparr> extra_lbann_flags := ExtraDict [(''num_gpus'', PStr ''2;ls'')] \<rparr>)
     = Inl (Exception ''Invalid character(s): 2;ls contains ;'')"
  using
    blacklist_gate [of "''lbann; rm --all''"
      "default_request (PStr ''lassen'') (PStr ''lbann; rm --all'')" example_env]
    blacklist_gate [of "''2;ls''"
      "(default_request (PStr ''nowhere'') PNone)
         \<lparr> extra_lbann_flags := ExtraDict [(''num_gpus'', PStr ''2;ls'')] \<rparr>" example_env]
  by (simp add: scalar_fields_def default_request_def strings_def blacklist_def)

section \<open>The stages of \<open>get_command\<close>\<close>

text \<open>Definitions to unfold when a call is evaluated on given parameters.\<close>

lemmas model_defs =
  get_command_def scheduler_commands_def application_flags_def allocate_and_run_def
  invalid_character_errors_def strings_def scalar_fields_def blacklist_def
  default_request_def example_env_def resolve_time_limit_def py_gt_def fmt_d_def
  process_executable_existence_def determine_scheduler_def
  slurm_allocate_def slurm_run_def lsf_allocate_def lsf_run_def lsf_node_options_def
  lsf_time_option_def py_ne_zero_def py_ceil_div_def
  extra_type_errors_def path_errors_def model_errors_def data_errors_def
  data_file_options_def data_file_parameters_def reader_percent_def
  option_model_def option_data_reader_def option_optimizer_def option_exit_after_setup_def
  option_metadata_def option_d_def option_ckpt_dir_def extra_options_def command_redirect_def
  dec_def dec_nat.simps re_sub_def

lemma get_command_Inr:
  "get_command en r = Inr res \<longleftrightarrow>
     invalid_character_errors r = [] \<and>
     (\<exists>ca cr cl.
        scheduler_commands en r = Inr (ca, cr) \<and>
        application_flags en r = Inr ([], cl) \<and>
        res = (if truthy (return_tuple r) then CommandTuple ca cr cl (command_redirect r)
               else CommandString (ca @ cr @ '' '' @ cl @ command_redirect r)))"
  unfolding get_command_def
  by (auto simp: bind_result_eq_Inr split: if_splits)

lemma scheduler_commands_Inr:
  "scheduler_commands en r = Inr segs \<longleftrightarrow>
     (\<exists>t sched.
        resolve_time_limit (time_limit r) (weekly r) = Inr t \<and>
        (truthy (check_executable_existence r) \<longrightarrow>
           process_executable_existence en (executable r) (skip_no_exe r) = Inr ()) \<and>
        determine_scheduler (cluster r) = Inr sched \<and>
        allocate_and_run en sched r t = Inr segs)"
  unfolding scheduler_commands_def
  by (auto simp: bind_result_eq_Inr split: if_splits)

lemma get_command_errors:
  assumes "invalid_character_errors r = []"
    and "scheduler_commands en r = Inr segs"
    and "application_flags en r = Inr (errs, cl)"
    and "errs \<noteq> []"
  shows "get_command en r = Inl (Exception (''Invalid Usage: '' @ join '' , '' errs))"
  using assms unfolding get_command_def by (cases segs) auto

lemma allocate_and_run_Lsf:
  "allocate_and_run en Lsf r t = Inr (ca, cr) \<longleftrightarrow>
     (\<exists>t'. lsf_allocate en (cluster r) (num_nodes r) (num_processes r) (partition_name r) t
             = Inr (ca, t') \<and>
           lsf_run (cluster r) ca (num_nodes r) (num_processes r) t' = Inr cr)"
  unfolding allocate_and_run_def
  by (auto simp: bind_result_eq_Inr)


section \<open>The time limit\<close>

lemma resolve_time_limit_num:
  assumes "resolve_time_limit tlim wk = Inr t"
  shows "\<exists>n. py_num t = Some n \<and> n \<le> 360"
  using assms unfolding resolve_time_limit_def py_gt_def Let_def
  by (auto simp: bind_result_eq_Inr split: if_splits option.splits)

lemma lsf_time_option_small:
  assumes "py_num t = Some n" "n \<le> 360"
  shows "lsf_time_option c t = Inr ('' -W '' @ dec n, t)"
  using assms unfolding lsf_time_option_def py_gt_def fmt_d_def
  by (cases t) auto

text \<open>
  C3. Without a \<open>time_limit\<close> the resolved time limit is 35, or 360 in a weekly run; a
  \<open>time_limit\<close> above 360 is resolved to 360. The resolved value is the one that the
  allocation and run commands are built from.
\<close>

theorem time_limit_resolution:
  "(time_limit r = PNone \<and> \<not> truthy (weekly r) \<longrightarrow>
      resolve_time_limit (time_limit r) (weekly r) = Inr (PInt 35)) \<and>
   (time_limit r = PNone \<and> truthy (weekly r) \<longrightarrow>
      resolve_time_limit (time_limit r) (weekly r) = Inr (PInt 360)) \<and>
   (time_limit r = PInt n \<and> 360 < n \<longrightarrow>
      resolve_time_limit (time_limit r) (weekly r) = Inr (PInt 360)) \<and>
   (\<forall>t. resolve_time_limit (time_limit r) (weekly r) = Inr t \<longrightarrow>
      scheduler_commands en r =
        bind_result
          (if truthy (check_executable_existence r)
           then process_executable_existence en (executable r) (skip_no_exe r)
           else Inr ())
          (\<lambda>_. bind_result (determine_scheduler (cluster r))
                 (\<lambda>sched. allocate_and_run en sched r t)))"
  by (simp add: resolve_time_limit_def py_gt_def scheduler_commands_def)

theorem time_limit_resolution_witness:
  "resolve_time_limit PNone (PBool False) = Inr (PInt 35)
   \<and> resolve_time_limit PNone (PBool True) = Inr (PInt 360)
   \<and> resolve_time_limit (PInt 1000) (PBool False) = Inr (PInt 360)
   \<and> get_command example_env
        ((default_request (PStr ''catalyst'') (PStr ''lbann'')) \<lparr> time_limit := PInt 1000 \<rparr>)
     = Inr (CommandString (''salloc --time=360 srun --mpibind=off --time=360 '' @
                           ''lbann --data_reader_percent=0.1''))"
  using
    time_limit_resolution [of "default_request (PStr ''catalyst'') (PStr ''lbann'')" 0 example_env]
    time_limit_resolution
      [of "(default_request (PStr ''catalyst'') (PStr ''lbann'')) \<lparr> weekly := PBool True \<rparr>"
          0 example_env]
    time_limit_resolution
      [of "(default_request (PStr ''catalyst'') (PStr ''lbann'')) \<lparr> time_limit := PInt 1000 \<rparr>"
          1000 example_env]
  by (simp add: model_defs)

lemma lsf_allocate_time:
  assumes "lsf_allocate en c nodes procs part t = Inr (ca, t')"
    and "py_num t = Some tn" "tn \<le> 360"
  shows "t' = t \<and> (ca = '''' \<or> (\<exists>pre. ca = pre @ '' -W '' @ dec tn))"
proof -
  consider "getenv en ''LSB_HOSTS'' = None \<and> getenv en ''LSB_JOBID'' = None"
    | "\<not> (getenv en ''LSB_HOSTS'' = None \<and> getenv en ''LSB_JOBID'' = None)" by blast
  then show ?thesis
  proof cases
    case 1
    then obtain on op oppn otl where
      to: "lsf_time_option c t = Inr (otl, t')" and
      ca: "ca = (''bsub'' @ (if c \<noteq> PStr ''lassen'' then '' -x'' else '''') @
              '' -G guests'' @ '' -Is'' @ op @
              (if part \<noteq> PNone then '' -q '' @ py_str part else '''') @ on @ oppn) @ otl"
      using assms(1) unfolding lsf_allocate_def Let_def
      by (auto simp: bind_result_eq_Inr split: if_splits)
    from to lsf_time_option_small [OF assms(2,3), of c] have "otl = '' -W '' @ dec tn" "t' = t"
      by simp_all
    with ca show ?thesis by blast
  next
    case 2
    with assms(1) show ?thesis by (auto simp: lsf_allocate_def)
  qed
qed







section \<open>The \<open>lsf\<close> segments\<close>

lemma lsf_node_options_form:
  assumes "lsf_node_options c nodes procs = Inr (on, op, oppn)"
  shows \<open>on = (if c = PStr ''lassen'' then '' -nnodes '' @ py_str nodes else '''') \<and>
         op = (if c \<noteq> PStr ''lassen'' \<and> procs \<noteq> PNone
               then '' -n '' @ dec (the (py_num procs)) else '''') \<and>
         oppn = (if c \<noteq> PStr ''lassen'' \<and> procs \<noteq> PNone \<and> nodes \<noteq> PNone \<and> py_ne_zero nodes
                 then '' -R "span[ptile='' @
                      dec (- ((- the (py_num procs)) div the (py_num nodes))) @ '']"''
                 else '''')\<close>
  using assms unfolding lsf_node_options_def fmt_d_def py_ceil_div_def
  by (auto simp: bind_result_eq_Inr split: if_splits option.splits)

lemma lsf_allocate_form:
  assumes "lsf_allocate en c nodes procs part t = Inr (ca, t')"
    and "getenv en ''LSB_HOSTS'' = None" "getenv en ''LSB_JOBID'' = None"
    and "py_num t = Some tn" "tn \<le> 360"
  shows \<open>t' = t \<and>
         ca = ''bsub'' @ (if c \<noteq> PStr ''lassen'' then '' -x'' else '''') @
              '' -G guests'' @ '' -Is'' @
              (if c \<noteq> PStr ''lassen'' \<and> procs \<noteq> PNone
               then '' -n '' @ dec (the (py_num procs)) else '''') @
              (if part \<noteq> PNone then '' -q '' @ py_str part else '''') @
              (if c = PStr ''lassen'' then '' -nnodes '' @ py_str nodes else '''') @
              (if c \<noteq> PStr ''lassen'' \<and> procs \<noteq> PNone \<and> nodes \<noteq> PNone \<and> py_ne_zero nodes
               then '' -R "span[ptile='' @
                    dec (- ((- the (py_num procs)) div the (py_num nodes))) @ '']"''
               else '''') @
              '' -W '' @ dec tn\<close>
proof -
  from assms(1-3) obtain on op oppn otl where
    no: "lsf_node_options c nodes procs = Inr (on, op, oppn)" and
    to: "lsf_time_option c t = Inr (otl, t')" and
    ca: "ca = ''bsub'' @ (if c \<noteq> PStr ''lassen'' then '' -x'' else '''') @
              '' -G guests'' @ '' -Is'' @ op @
              (if part \<noteq> PNone then '' -q '' @ py_str part else '''') @ on @ oppn @ otl"
    unfolding lsf_allocate_def Let_def
    by (auto simp: bind_result_eq_Inr split: if_splits)
  from to lsf_time_option_small [OF assms(4,5), of c] have "otl = '' -W '' @ dec tn" "t' = t"
    by simp_all
  with lsf_node_options_form [OF no] ca show ?thesis by simp
qed

lemma lsf_run_lassen:
  assumes "lsf_run (PStr ''lassen'') ca nodes (PInt n) t = Inr cr"
  shows \<open>cr = (if ca = '''' then '''' else '' '') @
              ''jsrun -b "packed:10" -c 40 -g 4 -d packed -n '' @
              (if 16 < n then ''16'' else dec n) @ '' -r 1 -a 4''\<close>
proof -
  have "dec 16 = ''16''" by (simp add: dec_def dec_nat.simps)
  with assms show ?thesis
    unfolding lsf_run_def Let_def py_gt_def
    by (auto simp: bind_result_eq_Inr split: if_splits)
qed

lemma lsf_cluster_allocate:
  assumes "scheduler_commands en r = Inr (ca, cr)"
    and "cluster r = PStr ''lassen'' \<or> cluster r = PStr ''ray''"
  shows "\<exists>t tn. py_num t = Some tn \<and> tn \<le> 360 \<and>
           lsf_allocate en (cluster r) (num_nodes r) (num_processes r) (partition_name r) t
             = Inr (ca, t) \<and>
           lsf_run (cluster r) ca (num_nodes r) (num_processes r) t = Inr cr"
proof -
  from assms(1) obtain t sched where
    t: "resolve_time_limit (time_limit r) (weekly r) = Inr t" and
    s: "determine_scheduler (cluster r) = Inr sched" and
    a: "allocate_and_run en sched r t = Inr (ca, cr)"
    by (auto simp: scheduler_commands_Inr)
  from resolve_time_limit_num [OF t] obtain tn where n: "py_num t = Some tn" "tn \<le> 360"
    by blast
  from s assms(2) have "sched = Lsf" by (auto simp: determine_scheduler_def)
  with a obtain t' where
    al: "lsf_allocate en (cluster r) (num_nodes r) (num_processes r) (partition_name r) t
           = Inr (ca, t')" and
    ru: "lsf_run (cluster r) ca (num_nodes r) (num_processes r) t' = Inr cr"
    by (auto simp: allocate_and_run_Lsf)
  from lsf_allocate_time [OF al n] have "t' = t" by simp
  with al ru n show ?thesis by blast
qed

text \<open>
  C5, as the code has it. A call on \<open>lassen\<close> or \<open>ray\<close> that returns, with neither
  \<open>LSB_HOSTS\<close> nor \<open>LSB_JOBID\<close> set, has the allocation segment \<open>bsub\<close> followed by, in
  this order: \<open>-x\<close> (not on \<open>lassen\<close>), \<open>-G guests\<close>, \<open>-Is\<close>, the task count \<open>-n\<close> (not
  on \<open>lassen\<close>, when a process count is given), the queue \<open>-q\<close> (when a partition is
  given), the node count \<open>-nnodes\<close> (on \<open>lassen\<close>), the processes per host \<open>-R\<close> (not on
  \<open>lassen\<close>, with a process count and a nonzero node count; its value is the ceiling of
  processes by nodes), and the time limit \<open>-W\<close>. The queue flag thus stands before the
  node count and before the processes per host, not after them.
\<close>

theorem lsf_allocation_flags:
  assumes "get_command en r = Inr res"
    and "cluster r = PStr ''lassen'' \<or> cluster r = PStr ''ray''"
    and "getenv en ''LSB_HOSTS'' = None" and "getenv en ''LSB_JOBID'' = None"
  shows \<open>\<exists>tn ca cr cl.
           tn \<le> 360 \<and>
           ca = ''bsub'' @ (if cluster r \<noteq> PStr ''lassen'' then '' -x'' else '''') @
                '' -G guests'' @ '' -Is'' @
                (if cluster r \<noteq> PStr ''lassen'' \<and> num_processes r \<noteq> PNone
                 then '' -n '' @ dec (the (py_num (num_processes r))) else '''') @
                (if partition_name r \<noteq> PNone then '' -q '' @ py_str (partition_name r)
                 else '''') @
                (if cluster r = PStr ''lassen'' then '' -nnodes '' @ py_str (num_nodes r)
                 else '''') @
                (if cluster r \<noteq> PStr ''lassen'' \<and> num_processes r \<noteq> PNone \<and>
                    num_nodes r \<noteq> PNone \<and> py_ne_zero (num_nodes r)
                 then '' -R "span[ptile='' @
                      dec \<lceil>real_of_int (the (py_num (num_processes r))) /
                           real_of_int (the (py_num (num_nodes r)))\<rceil> @ '']"''
                 else '''') @
                '' -W '' @ dec tn \<and>
           res = (if truthy (return_tuple r) then CommandTuple ca cr cl (command_redirect r)
                  else CommandString (ca @ cr @ '' '' @ cl @ command_redirect r))\<close>
proof -
  from assms(1) obtain ca cr cl where
    sc: "scheduler_commands en r = Inr (ca, cr)" and
    res: "res = (if truthy (return_tuple r) then CommandTuple ca cr cl (command_redirect r)
                 else CommandString (ca @ cr @ '' '' @ cl @ command_redirect r))"
    by (auto simp: get_command_Inr)
  from lsf_cluster_allocate [OF sc assms(2)] obtain t tn where
    n: "py_num t = Some tn" "tn \<le> 360" and
    al: "lsf_allocate en (cluster r) (num_nodes r) (num_processes r) (partition_name r) t
           = Inr (ca, t)"
    by blast
  from lsf_allocate_form [OF al assms(3,4) n] n(2) res show ?thesis
    by (simp only: ceiling_divide_eq_div) blast
qed

theorem lsf_allocation_flags_witness:
  \<open>get_command example_env
     ((default_request (PStr ''ray'') (PStr ''lbann''))
        \<lparr> num_nodes := PInt 3, num_processes := PInt 4, partition_name := PStr ''pbatch'',
          return_tuple := PBool True \<rparr>)
   = Inr (CommandTuple ''bsub -x -G guests -Is -n 4 -q pbatch -R "span[ptile=2]" -W 35''
            '' mpirun --timeout=35 -np 4 -N 2'' ''lbann --data_reader_percent=0.1'' '''')
   \<and> (\<exists>tn. tn \<le> 360 \<and>
         ''bsub -x -G guests -Is -n 4 -q pbatch -R "span[ptile=2]" -W 35'' =
         ''bsub -x -G guests -Is -n 4 -q pbatch -R "span[ptile=2]" -W '' @ dec tn)\<close>
proof -
  have e: \<open>get_command example_env
     ((default_request (PStr ''ray'') (PStr ''lbann''))
        \<lparr> num_nodes := PInt 3, num_processes := PInt 4, partition_name := PStr ''pbatch'',
          return_tuple := PBool True \<rparr>)
   = Inr (CommandTuple ''bsub -x -G guests -Is -n 4 -q pbatch -R "span[ptile=2]" -W 35''
            '' mpirun --timeout=35 -np 4 -N 2'' ''lbann --data_reader_percent=0.1'' '''')\<close>
    by (simp add: model_defs)
  have c: "cluster ((default_request (PStr ''ray'') (PStr ''lbann''))
        \<lparr> num_nodes := PInt 3, num_processes := PInt 4, partition_name := PStr ''pbatch'',
          return_tuple := PBool True \<rparr>) = PStr ''lassen'' \<or>
      cluster ((default_request (PStr ''ray'') (PStr ''lbann''))
        \<lparr> num_nodes := PInt 3, num_processes := PInt 4, partition_name := PStr ''pbatch'',
          return_tuple := PBool True \<rparr>) = PStr ''ray''"
    by (simp add: default_request_def)
  have h: "getenv example_env ''LSB_HOSTS'' = None" "getenv example_env ''LSB_JOBID'' = None"
    by (simp_all add: example_env_def)
  have d: "dec 4 = ''4''" "dec 2 = ''2''"
    by (simp_all add: dec_def dec_nat.simps)
  from lsf_allocation_flags [OF e c h] have
    \<open>\<exists>tn. tn \<le> 360 \<and>
         ''bsub -x -G guests -Is -n 4 -q pbatch -R "span[ptile=2]" -W 35'' =
         ''bsub -x -G guests -Is -n 4 -q pbatch -R "span[ptile=2]" -W '' @ dec tn\<close>
    by (simp add: default_request_def command_redirect_def d py_ne_zero_def)
  with e show ?thesis by (rule conjI)
qed

text \<open>
  The same call against the order of the specification: the segment that
  \<open>get_command\<close> returns has \<open>-q pbatch\<close> before \<open>-R\<close>, the specification's order has
  it after, and the two segments differ. On \<open>lassen\<close> the queue comes before \<open>-nnodes\<close>
  in the same way.
\<close>

theorem lsf_allocation_order_counterexample:
  \<open>get_command example_env
     ((default_request (PStr ''ray'') (PStr ''lbann''))
        \<lparr> num_nodes := PInt 3, num_processes := PInt 4, partition_name := PStr ''pbatch'',
          return_tuple := PBool True \<rparr>)
   = Inr (CommandTuple ''bsub -x -G guests -Is -n 4 -q pbatch -R "span[ptile=2]" -W 35''
            '' mpirun --timeout=35 -np 4 -N 2'' ''lbann --data_reader_percent=0.1'' '''')
   \<and> claimed_lsf_allocation (PStr ''ray'') (PInt 3) (PInt 4) (PStr ''pbatch'') 35
       = ''bsub -x -G guests -Is -n 4 -R "span[ptile=2]" -q pbatch -W 35''
   \<and> ''bsub -x -G guests -Is -n 4 -q pbatch -R "span[ptile=2]" -W 35''
       \<noteq> claimed_lsf_allocation (PStr ''ray'') (PInt 3) (PInt 4) (PStr ''pbatch'') 35
   \<and> get_command example_env
       ((default_request (PStr ''lassen'') (PStr ''lbann''))
          \<lparr> num_nodes := PInt 2, partition_name := PStr ''pbatch'',
            return_tuple := PBool True \<rparr>)
     = Inr (CommandTuple ''bsub -G guests -Is -q pbatch -nnodes 2 -W 35''
              '' jsrun'' ''lbann --data_reader_percent=0.1'' '''')
   \<and> claimed_lsf_allocation (PStr ''lassen'') (PInt 2) PNone (PStr ''pbatch'') 35
       = ''bsub -G guests -Is -nnodes 2 -q pbatch -W 35''\<close>
  by (simp add: model_defs claimed_lsf_allocation_def)

text \<open>
  C6. A call on \<open>lassen\<close> with an integer \<open>num_processes\<close> that returns has the run
  segment \<open>jsrun\<close> with the fixed binding flags and the process count \<open>-n\<close>, whose value
  is 16 when more than 16 processes are asked for and the number asked for otherwise.
\<close>

theorem lassen_process_cap:
  assumes "get_command en r = Inr res"
    and "cluster r = PStr ''lassen''" and "num_processes r = PInt n"
  shows \<open>\<exists>ca cr cl.
           cr = (if ca = '''' then '''' else '' '') @
                ''jsrun -b "packed:10" -c 40 -g 4 -d packed -n '' @
                (if 16 < n then ''16'' else dec n) @ '' -r 1 -a 4'' \<and>
           res = (if truthy (return_tuple r) then CommandTuple ca cr cl (command_redirect r)
                  else CommandString (ca @ cr @ '' '' @ cl @ command_redirect r))\<close>
proof -
  from assms(1) obtain ca cr cl where
    sc: "scheduler_commands en r = Inr (ca, cr)" and
    res: "res = (if truthy (return_tuple r) then CommandTuple ca cr cl (command_redirect r)
                 else CommandString (ca @ cr @ '' '' @ cl @ command_redirect r))"
    by (auto simp: get_command_Inr)
  from lsf_cluster_allocate [OF sc] assms(2,3) obtain t where
    "lsf_run (PStr ''lassen'') ca (num_nodes r) (PInt n) t = Inr cr"
    by auto
  from lsf_run_lassen [OF this] res show ?thesis by blast
qed

theorem lassen_process_cap_witness:
  \<open>\<exists>ca cl.
     get_command example_env
       ((default_request (PStr ''lassen'') (PStr ''lbann''))
          \<lparr> num_processes := PInt 32, return_tuple := PBool True \<rparr>)
     = Inr (CommandTuple ca '' jsrun -b "packed:10" -c 40 -g 4 -d packed -n 16 -r 1 -a 4''
              cl '''')\<close>
proof -
  have e: \<open>get_command example_env
       ((default_request (PStr ''lassen'') (PStr ''lbann''))
          \<lparr> num_processes := PInt 32, return_tuple := PBool True \<rparr>)
     = Inr (CommandTuple ''bsub -G guests -Is -nnodes None -W 35''
              '' jsrun -b "packed:10" -c 40 -g 4 -d packed -n 16 -r 1 -a 4''
              ''lbann --data_reader_percent=0.1'' '''')\<close>
    by (simp add: model_defs)
  have c: "cluster ((default_request (PStr ''lassen'') (PStr ''lbann''))
          \<lparr> num_processes := PInt 32, return_tuple := PBool True \<rparr>) = PStr ''lassen''"
    and p: "num_processes ((default_request (PStr ''lassen'') (PStr ''lbann''))
          \<lparr> num_processes := PInt 32, return_tuple := PBool True \<rparr>) = PInt 32"
    by (simp_all add: default_request_def)
  from lassen_process_cap [OF e c p] e show ?thesis
    by (simp add: default_request_def command_redirect_def)
qed

text \<open>
  C9. A call on \<open>lassen\<close> that returns, with neither \<open>LSB_HOSTS\<close> nor \<open>LSB_JOBID\<close> set
  and \<open>num_nodes\<close> left at \<open>None\<close>, has the allocation segment \<open>bsub -G guests -Is\<close>,
  the queue flag if a partition is given, the text \<open> -nnodes None\<close>, and the time limit.
\<close>

theorem lassen_nnodes_none:
  assumes "get_command en r = Inr res"
    and "cluster r = PStr ''lassen''" and "num_nodes r = PNone"
    and "getenv en ''LSB_HOSTS'' = None" and "getenv en ''LSB_JOBID'' = None"
  shows "\<exists>tn ca cr cl.
           tn \<le> 360 \<and>
           ca = ''bsub -G guests -Is'' @
                (if partition_name r \<noteq> PNone then '' -q '' @ py_str (partition_name r)
                 else '''') @
                '' -nnodes None'' @ '' -W '' @ dec tn \<and>
           res = (if truthy (return_tuple r) then CommandTuple ca cr cl (command_redirect r)
                  else CommandString (ca @ cr @ '' '' @ cl @ command_redirect r))"
proof -
  from assms(1) obtain ca cr cl where
    sc: "scheduler_commands en r = Inr (ca, cr)" and
    res: "res = (if truthy (return_tuple r) then CommandTuple ca cr cl (command_redirect r)
                 else CommandString (ca @ cr @ '' '' @ cl @ command_redirect r))"
    by (auto simp: get_command_Inr)
  from lsf_cluster_allocate [OF sc] assms(2) obtain t tn where
    n: "py_num t = Some tn" "tn \<le> 360" and
    al: "lsf_allocate en (cluster r) (num_nodes r) (num_processes r) (partition_name r) t
           = Inr (ca, t)"
    by auto
  from lsf_allocate_form [OF al assms(4,5) n] assms(2,3) n(2) res show ?thesis
    by (intro exI [of _ tn] exI [of _ ca] exI [of _ cr] exI [of _ cl]) simp
qed

theorem lassen_nnodes_none_witness:
  "get_command example_env
     ((default_request (PStr ''lassen'') (PStr ''lbann'')) \<lparr> return_tuple := PBool True \<rparr>)
     = Inr (CommandTuple ''bsub -G guests -Is -nnodes None -W 35'' '' jsrun''
              ''lbann --data_reader_percent=0.1'' '''')
   \<and> (\<exists>tn. tn \<le> 360 \<and>
         ''bsub -G guests -Is -nnodes None -W 35''
           = ''bsub -G guests -Is'' @ '' -nnodes None'' @ '' -W '' @ dec tn)"
proof -
  have e: "get_command example_env
     ((default_request (PStr ''lassen'') (PStr ''lbann'')) \<lparr> return_tuple := PBool True \<rparr>)
     = Inr (CommandTuple ''bsub -G guests -Is -nnodes None -W 35'' '' jsrun''
              ''lbann --data_reader_percent=0.1'' '''')"
    by (simp add: model_defs)
  have c: "cluster ((default_request (PStr ''lassen'') (PStr ''lbann''))
             \<lparr> return_tuple := PBool True \<rparr>) = PStr ''lassen''"
    and n: "num_nodes ((default_request (PStr ''lassen'') (PStr ''lbann''))
             \<lparr> return_tuple := PBool True \<rparr>) = PNone"
    by (simp_all add: default_request_def)
  have h: "getenv example_env ''LSB_HOSTS'' = None" "getenv example_env ''LSB_JOBID'' = None"
    by (simp_all add: example_env_def)
  from lassen_nnodes_none [OF e c n h] have
    "\<exists>tn. tn \<le> 360 \<and>
         ''bsub -G guests -Is -nnodes None -W 35''
           = ''bsub -G guests -Is'' @ '' -nnodes None'' @ '' -W '' @ dec tn"
    by (simp add: default_request_def command_redirect_def)
  with e show ?thesis by (rule conjI)
qed


section \<open>The application flags\<close>


lemma application_flags_Inr:
  "application_flags en r = Inr (errs, cl) \<longleftrightarrow>
     (\<exists>o1 o2 o3 o4 o5 pe op omb one oppm.
        data_file_options r = Inr (o1, o2, o3, o4, o5) \<and>
        reader_percent en r = Inr (pe, op) \<and>
        option_d '' --mini_batch_size='' (mini_batch_size r) = Inr omb \<and>
        option_d '' --num_epochs='' (num_epochs r) = Inr one \<and>
        option_d '' --procs_per_model='' (processes_per_model r) = Inr oppm \<and>
        errs = extra_type_errors r @ path_errors r @ data_errors r @ pe @
                 fst (extra_options r) \<and>
        cl = py_str (executable r) @ option_ckpt_dir r @ o1 @ o2 @ o3 @ o4 @ o5 @
             option_data_reader r @ op @ option_exit_after_setup r @ option_metadata r @ omb @
             option_model r @ one @ option_optimizer r @ oppm @ snd (extra_options r))"
  unfolding application_flags_def
  by (auto simp: bind_result_eq_Inr)










section \<open>Model path and model folder\<close>

text \<open>
  C4, as the code has it. Let \<open>model_path\<close>, \<open>model_folder\<close> and \<open>dir_name\<close> all be
  set, in a call that passes the blacklist gate, gets past the scheduler dispatch and
  formats its application flags without a \<open>TypeError\<close>. Then \<open>get_command\<close> raises an
  exception whose message contains \<open>model_path is set but so is at least one of model
  folder and model_name\<close>. The test for this conflict stands under \<open>dir_name is not
  None\<close>; without a \<open>dir_name\<close> the exception reports that \<open>dir_name\<close> is not set.
\<close>

theorem model_path_conflict:
  assumes "invalid_character_errors r = []"
    and "scheduler_commands en r = Inr segs"
    and "application_flags en r = Inr (errs, cl)"
    and "dir_name r \<noteq> PNone" and "model_path r \<noteq> PNone" and "model_folder r \<noteq> PNone"
  shows "\<exists>msg p q.
           get_command en r = Inl (Exception msg) \<and>
           msg = p @ ''model_path is set but so is at least one of model folder and model_name''
                   @ q"
proof -
  let ?m = "''model_path is set but so is at least one of model folder and model_name''"
  from assms(4-6) have "?m \<in> set (path_errors r)"
    by (simp add: path_errors_def model_errors_def)
  moreover from assms(3) have "set (path_errors r) \<subseteq> set errs"
    by (auto simp: application_flags_Inr)
  ultimately have m: "?m \<in> set errs" by blast
  then have "errs \<noteq> []" by auto
  with assms(1-3) have
    g: "get_command en r = Inl (Exception (''Invalid Usage: '' @ join '' , '' errs))"
    by (rule get_command_errors)
  from join_contains [OF m] obtain p q where "join '' , '' errs = p @ ?m @ q"
    by blast
  then have "''Invalid Usage: '' @ join '' , '' errs = (''Invalid Usage: '' @ p) @ ?m @ q"
    by simp
  with g show ?thesis by blast
qed

theorem model_path_conflict_witness:
  "get_command example_env
     ((default_request (PStr ''catalyst'') (PStr ''lbann''))
        \<lparr> dir_name := PStr ''/lbann'', model_folder := PStr ''tests'',
          model_path := PStr ''model.prototext'' \<rparr>)
   = Inl (Exception (''Invalid Usage: '' @
            ''model_path is set but so is at least one of model folder and model_name''))"
proof -
  let ?r = "(default_request (PStr ''catalyst'') (PStr ''lbann''))
        \<lparr> dir_name := PStr ''/lbann'', model_folder := PStr ''tests'',
          model_path := PStr ''model.prototext'' \<rparr>"
  have g: "invalid_character_errors ?r = []"
    by (simp add: model_defs)
  have s: "scheduler_commands example_env ?r
             = Inr (''salloc --time=35'', '' srun --mpibind=off --time=35'')"
    by (simp add: model_defs)
  have a: "application_flags example_env ?r
             = Inr ([''model_path is set but so is at least one of model folder and model_name''],
                    ''lbann --data_reader_percent=0.1 --model=model.prototext'')"
    by (simp add: model_defs)
  have d: "dir_name ?r \<noteq> PNone" "model_path ?r \<noteq> PNone" "model_folder ?r \<noteq> PNone"
    by (simp_all add: default_request_def)
  have e: "get_command example_env ?r
   = Inl (Exception (''Invalid Usage: '' @
            ''model_path is set but so is at least one of model folder and model_name''))"
    by (simp add: get_command_def g s a)
  from model_path_conflict [OF g s a d] e show ?thesis by simp
qed

text \<open>
  Without a \<open>dir_name\<close>: both \<open>model_path\<close> and \<open>model_folder\<close> are set, the exception
  is raised, and its message does not contain the text on \<open>model_path\<close>.
\<close>

theorem model_path_conflict_counterexample:
  "model_path ((default_request (PStr ''catalyst'') (PStr ''lbann''))
        \<lparr> model_folder := PStr ''tests'', model_path := PStr ''model.prototext'' \<rparr>) \<noteq> PNone
   \<and> model_folder ((default_request (PStr ''catalyst'') (PStr ''lbann''))
        \<lparr> model_folder := PStr ''tests'', model_path := PStr ''model.prototext'' \<rparr>) \<noteq> PNone
   \<and> get_command example_env
       ((default_request (PStr ''catalyst'') (PStr ''lbann''))
          \<lparr> model_folder := PStr ''tests'', model_path := PStr ''model.prototext'' \<rparr>)
     = Inl (Exception (''Invalid Usage: '' @
              ''dir_name is not set but at least one of model_folder, model_name, '' @
              ''data_reader_name, optimizer_name is.''))
   \<and> \<not> py_in ''model_path is set but so is at least one of model folder and model_name''
         (''Invalid Usage: '' @
          ''dir_name is not set but at least one of model_folder, model_name, '' @
          ''data_reader_name, optimizer_name is.'')"
  by (simp add: model_defs)

section \<open>Metadata without a directory name\<close>








end
